theory Spec2Isabelle
  imports Complex_Main
begin

section \<open>The anonymization overlay: data model\<close>

text \<open>
  The development embeds two source files: the layer
  (\<^verbatim>\<open>src/display/anonymization_layer.js\<close>: the element factory and the static
  methods \<^verbatim>\<open>render\<close>, \<^verbatim>\<open>renderRectangles\<close>, \<^verbatim>\<open>registerCanvasEvents\<close>,
  \<^verbatim>\<open>update\<close>) and the builder (\<^verbatim>\<open>AnonymizationLayerBuilder\<close> and
  \<^verbatim>\<open>DefaultAnonymizationLayerFactory\<close>).

  JavaScript numbers are modelled as rationals: every claim about numbers is stated over
  exact arithmetic. An exception is a value: a call returns an \<open>outcome\<close>, which carries
  the state the call left behind, also when it threw, since the mutations made before a
  \<^verbatim>\<open>throw\<close> stay.
\<close>

datatype error = TypeError | ReferenceError

datatype 's outcome = Returned 's | Threw error 's

fun state_of :: "'s outcome \<Rightarrow> 's" where
  "state_of (Returned s) = s"
| "state_of (Threw e s) = s"

fun thrown :: "'s outcome \<Rightarrow> error option" where
  "thrown (Returned s) = None"
| "thrown (Threw e s) = Some e"

subsection \<open>Rectangles and mouse events\<close>

text \<open>A rectangle of the list: \<^verbatim>\<open>{ x0, y0, x1, y1 }\<close> in page space.\<close>

record rectangle =
  x0 :: rat
  y0 :: rat
  x1 :: rat
  y1 :: rat

text \<open>The two fields of a mouse event that the handlers read.\<close>

record mouse_event =
  offsetX :: rat
  offsetY :: rat

subsection \<open>The viewport\<close>

text \<open>
  Modelled from the spec: the viewport class is not among the source files. The spec
  describes it as an immutable snapshot of the page-to-canvas transform (scale, rotation,
  height) that exposes \<^verbatim>\<open>convertToViewportPoint(x, y)\<close>, \<^verbatim>\<open>convertToPdfPoint(x, y)\<close>,
  \<^verbatim>\<open>clone({ dontFlip })\<close>, \<^verbatim>\<open>width\<close> and \<^verbatim>\<open>height\<close>. The model is the page viewport
  of the viewer: a view box, a uniform scale, a rotation in degrees of which only the
  quarter turns are distinguished, an offset (\<open>shiftX\<close>, \<open>shiftY\<close>), and the flag that
  keeps the y axis bottom-up. The transform is the six-number affine matrix \<open>[a, b, c, d, e, f]\<close>;
  a point is converted by applying it, and converted back by applying its inverse.
\<close>

record viewport =
  viewBox :: "rat \<times> rat \<times> rat \<times> rat"
  scale :: rat
  rotation :: int
  shiftX :: rat
  shiftY :: rat
  dontFlip :: bool

text \<open>The rotation part \<open>(rotateA, rotateB, rotateC, rotateD)\<close>, before the flip.\<close>

definition rotate_matrix :: "int \<Rightarrow> rat \<times> rat \<times> rat \<times> rat" where
  "rotate_matrix r =
     (let q = r mod 360 in
      if q = 180 then (- 1, 0, 0, 1)
      else if q = 90 then (0, 1, 1, 0)
      else if q = 270 then (0, - 1, - 1, 0)
      else (1, 0, 0, - 1))"

definition flip_matrix :: "bool \<Rightarrow> rat \<times> rat \<times> rat \<times> rat \<Rightarrow> rat \<times> rat \<times> rat \<times> rat" where
  "flip_matrix keep m = (case m of (a, b, c, d) \<Rightarrow> if keep then (a, b, - c, - d) else (a, b, c, d))"

definition viewport_width :: "viewport \<Rightarrow> rat" where
  "viewport_width v =
     (case viewBox v of (bx0, by0, bx1, by1) \<Rightarrow>
        case rotate_matrix (rotation v) of (a, b, c, d) \<Rightarrow>
          if a = 0 then \<bar>by1 - by0\<bar> * scale v else \<bar>bx1 - bx0\<bar> * scale v)"

definition viewport_height :: "viewport \<Rightarrow> rat" where
  "viewport_height v =
     (case viewBox v of (bx0, by0, bx1, by1) \<Rightarrow>
        case rotate_matrix (rotation v) of (a, b, c, d) \<Rightarrow>
          if a = 0 then \<bar>bx1 - bx0\<bar> * scale v else \<bar>by1 - by0\<bar> * scale v)"

definition transform :: "viewport \<Rightarrow> rat \<times> rat \<times> rat \<times> rat \<times> rat \<times> rat" where
  "transform v =
     (case viewBox v of (bx0, by0, bx1, by1) \<Rightarrow>
        case flip_matrix (dontFlip v) (rotate_matrix (rotation v)) of (a, b, c, d) \<Rightarrow>
          let centerX = (bx1 + bx0) / 2;
              centerY = (by1 + by0) / 2;
              s = scale v;
              offsetCanvasX = (if a = 0 then \<bar>centerY - by0\<bar> * s + shiftX v
                               else \<bar>centerX - bx0\<bar> * s + shiftX v);
              offsetCanvasY = (if a = 0 then \<bar>centerX - bx0\<bar> * s + shiftY v
                               else \<bar>centerY - by0\<bar> * s + shiftY v)
          in (a * s, b * s, c * s, d * s,
              offsetCanvasX - a * s * centerX - c * s * centerY,
              offsetCanvasY - b * s * centerX - d * s * centerY))"

definition applyTransform :: "rat \<times> rat \<Rightarrow> rat \<times> rat \<times> rat \<times> rat \<times> rat \<times> rat \<Rightarrow> rat \<times> rat" where
  "applyTransform p m =
     (case p of (px, py) \<Rightarrow> case m of (m0, m1, m2, m3, m4, m5) \<Rightarrow>
        (px * m0 + py * m2 + m4, px * m1 + py * m3 + m5))"

definition applyInverseTransform :: "rat \<times> rat \<Rightarrow> rat \<times> rat \<times> rat \<times> rat \<times> rat \<times> rat \<Rightarrow> rat \<times> rat" where
  "applyInverseTransform p m =
     (case p of (px, py) \<Rightarrow> case m of (m0, m1, m2, m3, m4, m5) \<Rightarrow>
        let d = m0 * m3 - m1 * m2
        in ((px * m3 - py * m2 + m2 * m5 - m4 * m3) / d,
            (- px * m1 + py * m0 + m4 * m1 - m5 * m0) / d))"

definition convertToViewportPoint :: "viewport \<Rightarrow> rat \<Rightarrow> rat \<Rightarrow> rat \<times> rat" where
  "convertToViewportPoint v x y = applyTransform (x, y) (transform v)"

text \<open>
  With a zero scale the inverse divides by zero, which yields a non-finite number in
  JavaScript and \<open>0\<close> here; no statement below depends on the value of a converted point
  of such a viewport.
\<close>

definition convertToPdfPoint :: "viewport \<Rightarrow> rat \<Rightarrow> rat \<Rightarrow> rat \<times> rat" where
  "convertToPdfPoint v x y = applyInverseTransform (x, y) (transform v)"

definition clone :: "bool \<Rightarrow> viewport \<Rightarrow> viewport" where
  "clone flag v = v\<lparr>dontFlip := flag\<rparr>"

subsection \<open>The canvas\<close>

text \<open>
  The canvas element and its 2D context are the rendering surface the code draws on.
  The model records what the code can do to it: the size and style it assigns, the
  attributes it sets and removes, the event types it listens to, the fill style of the
  context, and the drawing calls the context received since the bitmap was last reset
  (assigning \<^verbatim>\<open>width\<close> or \<^verbatim>\<open>height\<close> resets the bitmap and the context state). The
  pixel content of the canvas is a function of its size and of \<open>ops\<close>.
\<close>

datatype draw_op =
    FillRect string "rat \<times> rat \<times> rat \<times> rat"
  | ClearRect "rat \<times> rat \<times> rat \<times> rat"

record canvas =
  canvas_width :: rat
  canvas_height :: rat
  style_width :: string
  style_height :: string
  attributes :: "string \<rightharpoonup> string"
  listeners :: "string list"
  fillStyle :: string
  ops :: "draw_op list"

definition createElement_canvas :: canvas where
  "createElement_canvas =
     \<lparr>canvas_width = 300, canvas_height = 150, style_width = [], style_height = [],
      attributes = Map.empty, listeners = [], fillStyle = ''#000000'', ops = []\<rparr>"

definition set_width :: "rat \<Rightarrow> canvas \<Rightarrow> canvas" where
  "set_width w c = c\<lparr>canvas_width := w, fillStyle := ''#000000'', ops := []\<rparr>"

definition set_height :: "rat \<Rightarrow> canvas \<Rightarrow> canvas" where
  "set_height h c = c\<lparr>canvas_height := h, fillStyle := ''#000000'', ops := []\<rparr>"

definition setAttribute :: "string \<Rightarrow> string \<Rightarrow> canvas \<Rightarrow> canvas" where
  "setAttribute k v c = c\<lparr>attributes := (attributes c)(k \<mapsto> v)\<rparr>"

definition removeAttribute :: "string \<Rightarrow> canvas \<Rightarrow> canvas" where
  "removeAttribute k c = c\<lparr>attributes := (attributes c)(k := None)\<rparr>"

definition addEventListener :: "string \<Rightarrow> canvas \<Rightarrow> canvas" where
  "addEventListener ty c = c\<lparr>listeners := listeners c @ [ty]\<rparr>"

definition fillRect :: "rat \<times> rat \<times> rat \<times> rat \<Rightarrow> canvas \<Rightarrow> canvas" where
  "fillRect r c = c\<lparr>ops := ops c @ [FillRect (fillStyle c) r]\<rparr>"

definition clearRect :: "rat \<times> rat \<times> rat \<times> rat \<Rightarrow> canvas \<Rightarrow> canvas" where
  "clearRect r c = c\<lparr>ops := ops c @ [ClearRect r]\<rparr>"

section \<open>The layer\<close>

subsection \<open>AnonymizationElementFactory.create\<close>

text \<open>
  The object \<^verbatim>\<open>create\<close> returns closes over the context of the canvas and over
  \<^verbatim>\<open>viewportRectangle\<close>; its two methods act on that canvas. The call
  \<^verbatim>\<open>canvas.getContext('2d')\<close> throws a \<^verbatim>\<open>TypeError\<close> when the canvas is \<^verbatim>\<open>null\<close>.
\<close>

record element =
  isRenderable :: bool
  viewportRectangle :: "rat \<times> rat \<times> rat \<times> rat"

definition viewport_rectangle :: "viewport \<Rightarrow> rectangle \<Rightarrow> rat \<times> rat \<times> rat \<times> rat" where
  "viewport_rectangle v r =
     (let viewPortX = convertToViewportPoint v (x0 r) (y0 r);
          viewPortY = convertToViewportPoint v (x1 r) (y1 r)
      in (fst viewPortX,
          \<bar>snd viewPortX - viewport_height v\<bar>,
          fst viewPortY - fst viewPortX,
          \<bar>snd viewPortY - viewport_height v\<bar> - \<bar>snd viewPortX - viewport_height v\<bar>))"

definition create :: "canvas option \<Rightarrow> rectangle \<Rightarrow> viewport \<Rightarrow> error + element" where
  "create cv r v =
     (case cv of
        None \<Rightarrow> Inl TypeError
      | Some c \<Rightarrow> Inr \<lparr>isRenderable = True, viewportRectangle = viewport_rectangle v r\<rparr>)"

definition element_render :: "element \<Rightarrow> canvas \<Rightarrow> canvas" where
  "element_render el c = fillRect (viewportRectangle el) (c\<lparr>fillStyle := ''black''\<rparr>)"

definition element_clear :: "element \<Rightarrow> canvas \<Rightarrow> canvas" where
  "element_clear el c = clearRect (viewportRectangle el) c"

text \<open>The area of a canvas-space rectangle \<open>[x, y, width, height]\<close>, and of a page-space one.\<close>

definition canvas_area :: "rat \<times> rat \<times> rat \<times> rat \<Rightarrow> rat" where
  "canvas_area q = (case q of (x, y, w, h) \<Rightarrow> \<bar>w * h\<bar>)"

definition page_area :: "rectangle \<Rightarrow> rat" where
  "page_area r = \<bar>x1 r - x0 r\<bar> * \<bar>y1 r - y0 r\<bar>"

text \<open>
  Both converted corners lie on the same side of the line \<open>y = viewport.height\<close> (or on
  it), as the corners of every rectangle drawn with the mouse do.
\<close>

definition corners_same_side :: "viewport \<Rightarrow> rectangle \<Rightarrow> bool" where
  "corners_same_side v r =
     (let a = snd (convertToViewportPoint v (x0 r) (y0 r)) - viewport_height v;
          b = snd (convertToViewportPoint v (x1 r) (y1 r)) - viewport_height v
      in (a \<le> 0 \<and> b \<le> 0) \<or> (0 \<le> a \<and> 0 \<le> b))"

subsection \<open>AnonymizationLayer\<close>

text \<open>
  The parameters object that \<^verbatim>\<open>render\<close> and \<^verbatim>\<open>update\<close> receive. The canvas may be
  \<^verbatim>\<open>null\<close>; an entry of the rectangle list may be \<^verbatim>\<open>null\<close> or \<^verbatim>\<open>undefined\<close>
  (\<open>None\<close>: the entries that \<^verbatim>\<open>!rectangle\<close> skips). The field \<^verbatim>\<open>page\<close> is passed on
  and never read, and is left out.
\<close>

record parameters =
  viewport :: viewport
  canvas :: "canvas option"
  rectangles :: "rectangle option list"

text \<open>The closure \<^verbatim>\<open>rectangleFactory\<close> that \<^verbatim>\<open>render\<close> builds from its parameters.\<close>

definition rectangleFactory :: "parameters \<Rightarrow> rectangle \<Rightarrow> error + element" where
  "rectangleFactory p r = create (canvas p) r (viewport p)"

text \<open>
  The loop of \<^verbatim>\<open>renderRectangles\<close>. The second argument of \<^verbatim>\<open>renderRectangles\<close> is
  optional in JavaScript: when the caller leaves it out it is \<^verbatim>\<open>undefined\<close> (\<open>None\<close>),
  and calling it throws a \<^verbatim>\<open>TypeError\<close>. An element paints on the canvas whose context
  it captured, which is the canvas of the parameters.
\<close>

fun renderRectangles_loop ::
  "(rectangle \<Rightarrow> error + element) option \<Rightarrow> rectangle option list \<Rightarrow> canvas option \<Rightarrow>
   canvas option outcome" where
  "renderRectangles_loop f [] cv = Returned cv"
| "renderRectangles_loop f (None # rs) cv = renderRectangles_loop f rs cv"
| "renderRectangles_loop f (Some r # rs) cv =
     (case f of
        None \<Rightarrow> Threw TypeError cv
      | Some g \<Rightarrow>
          (case g r of
             Inl e \<Rightarrow> Threw e cv
           | Inr el \<Rightarrow>
               renderRectangles_loop f rs
                 (if isRenderable el then map_option (element_render el) cv else cv)))"

definition renderRectangles ::
  "parameters \<Rightarrow> (rectangle \<Rightarrow> error + element) option \<Rightarrow> parameters outcome" where
  "renderRectangles p f =
     map_outcome (\<lambda>cv. p\<lparr>canvas := cv\<rparr>) (renderRectangles_loop f (rectangles p) (canvas p))"

text \<open>
  The variables that the three listeners of \<^verbatim>\<open>registerCanvasEvents\<close> close over: the
  parameters of the \<^verbatim>\<open>render\<close> call (canvas, viewport and the shared rectangle list),
  and \<^verbatim>\<open>painting\<close>, \<^verbatim>\<open>createRectangle\<close> and \<^verbatim>\<open>rectangle\<close>. The function stored in
  \<^verbatim>\<open>createRectangle\<close> closes over the \<^verbatim>\<open>mousedown\<close> event, so the variable is modelled
  by that event (\<open>None\<close> is \<^verbatim>\<open>null\<close>). \<^verbatim>\<open>registerCanvasEvents\<close> has one caller,
  \<^verbatim>\<open>render\<close>, which passes the canvas, the viewport and the rectangle list of its
  parameters and two closures over them; the model passes the parameters.
\<close>

record session =
  parameters :: parameters
  painting :: bool
  createRectangle :: "mouse_event option"
  rectangle :: "element option"

definition createRectangle_body :: "viewport \<Rightarrow> mouse_event \<Rightarrow> mouse_event \<Rightarrow> rectangle" where
  "createRectangle_body v e mouseEvent =
     (let point0 = convertToPdfPoint v (offsetX e) (viewport_height v - offsetY e);
          point1 = convertToPdfPoint v (offsetX mouseEvent) (viewport_height v - offsetY mouseEvent)
      in \<lparr>x0 = fst point0, y0 = snd point0, x1 = fst point1, y1 = snd point1\<rparr>)"

text \<open>The callback \<^verbatim>\<open>rerender\<close> that \<^verbatim>\<open>render\<close> hands to \<^verbatim>\<open>registerCanvasEvents\<close>.\<close>

definition rerender :: "session \<Rightarrow> session outcome" where
  "rerender s =
     map_outcome (\<lambda>p. s\<lparr>parameters := p\<rparr>)
       (renderRectangles (parameters s) (Some (rectangleFactory (parameters s))))"

definition registerCanvasEvents :: "parameters \<Rightarrow> session outcome" where
  "registerCanvasEvents p =
     (case canvas p of
        None \<Rightarrow>
          Threw TypeError
            \<lparr>parameters = p, painting = False, createRectangle = None, rectangle = None\<rparr>
      | Some c \<Rightarrow>
          Returned
            \<lparr>parameters = p\<lparr>canvas := Some (addEventListener ''mousemove''
                 (addEventListener ''mouseup'' (addEventListener ''mousedown'' c)))\<rparr>,
             painting = False, createRectangle = None, rectangle = None\<rparr>)"

definition mousedown :: "mouse_event \<Rightarrow> session \<Rightarrow> session outcome" where
  "mousedown e s =
     (if \<not> painting s then Returned (s\<lparr>createRectangle := Some e, painting := True\<rparr>)
      else Returned s)"

definition push_rectangle :: "rectangle \<Rightarrow> session \<Rightarrow> session" where
  "push_rectangle r s =
     s\<lparr>parameters := (parameters s)\<lparr>rectangles := rectangles (parameters s) @ [Some r]\<rparr>\<rparr>"

definition mouseup :: "mouse_event \<Rightarrow> session \<Rightarrow> session outcome" where
  "mouseup e s =
     (if painting s then
        (case createRectangle s of
           None \<Rightarrow> Threw TypeError s
         | Some a \<Rightarrow>
             (case rerender (push_rectangle (createRectangle_body (viewport (parameters s)) a e) s) of
                Threw err s' \<Rightarrow> Threw err s'
              | Returned s' \<Rightarrow> Returned (s'\<lparr>painting := False\<rparr>)))
      else Returned s)"

text \<open>The two statements of the \<^verbatim>\<open>mousemove\<close> listener.\<close>

definition clear_preview :: "session \<Rightarrow> session outcome" where
  "clear_preview s =
     (case rectangle s of
        None \<Rightarrow> Returned s
      | Some el \<Rightarrow>
          rerender
            (s\<lparr>parameters :=
                 (parameters s)\<lparr>canvas := map_option (element_clear el) (canvas (parameters s))\<rparr>,
               rectangle := None\<rparr>))"

definition paint_preview :: "mouse_event \<Rightarrow> session \<Rightarrow> session outcome" where
  "paint_preview e s =
     (if painting s then
        (case createRectangle s of
           None \<Rightarrow> Threw TypeError s
         | Some a \<Rightarrow>
             (case rectangleFactory (parameters s)
                     (createRectangle_body (viewport (parameters s)) a e) of
                Inl err \<Rightarrow> Threw err s
              | Inr el \<Rightarrow>
                  Returned
                    (s\<lparr>rectangle := Some el,
                       parameters :=
                         (parameters s)\<lparr>canvas :=
                            map_option (element_render el) (canvas (parameters s))\<rparr>\<rparr>)))
      else Returned s)"

definition mousemove :: "mouse_event \<Rightarrow> session \<Rightarrow> session outcome" where
  "mousemove e s =
     (case clear_preview s of
        Threw err s' \<Rightarrow> Threw err s'
      | Returned s' \<Rightarrow> paint_preview e s')"

text \<open>
  \<^verbatim>\<open>AnonymizationLayer.render\<close> and \<^verbatim>\<open>AnonymizationLayer.update\<close>. When the first
  statement of \<^verbatim>\<open>render\<close> throws, no listener was installed; the outcome then carries
  the parameters as they were left, with the closure variables at their initial values.
  \<^verbatim>\<open>update\<close> calls \<^verbatim>\<open>renderRectangles\<close> with one argument.
\<close>

definition AnonymizationLayer_render :: "parameters \<Rightarrow> session outcome" where
  "AnonymizationLayer_render p =
     (case renderRectangles p (Some (rectangleFactory p)) of
        Threw err p' \<Rightarrow>
          Threw err \<lparr>parameters = p', painting = False, createRectangle = None, rectangle = None\<rparr>
      | Returned p' \<Rightarrow> registerCanvasEvents p')"

definition AnonymizationLayer_update :: "parameters \<Rightarrow> parameters outcome" where
  "AnonymizationLayer_update p =
     (case renderRectangles p None of
        Threw err p' \<Rightarrow> Threw err p'
      | Returned p' \<Rightarrow>
          (case canvas p' of
             None \<Rightarrow> Threw TypeError p'
           | Some c \<Rightarrow> Returned (p'\<lparr>canvas := Some (removeAttribute ''hidden'' c)\<rparr>)))"

subsection \<open>Mouse events in sequence\<close>

text \<open>
  The browser dispatches one event at a time; a listener that throws ends its own turn
  only, and the next event finds the state it left.
\<close>

datatype event = MouseDown mouse_event | MouseUp mouse_event | MouseMove mouse_event

fun dispatch :: "event \<Rightarrow> session \<Rightarrow> session outcome" where
  "dispatch (MouseDown e) s = mousedown e s"
| "dispatch (MouseUp e) s = mouseup e s"
| "dispatch (MouseMove e) s = mousemove e s"

fun run :: "event list \<Rightarrow> session \<Rightarrow> session" where
  "run [] s = s"
| "run (ev # evs) s = run evs (state_of (dispatch ev s))"

fun is_MouseUp :: "event \<Rightarrow> bool" where
  "is_MouseUp (MouseUp e) = True"
| "is_MouseUp ev = False"

text \<open>
  The drawing calls of one full repaint: one \<^verbatim>\<open>fillRect\<close> in black for each entry of
  the list that is not \<^verbatim>\<open>null\<close>, in list order.
\<close>

fun present :: "'a option list \<Rightarrow> 'a list" where
  "present [] = []"
| "present (None # xs) = present xs"
| "present (Some x # xs) = x # present xs"

definition paint_op :: "viewport \<Rightarrow> rectangle \<Rightarrow> draw_op" where
  "paint_op v r = FillRect ''black'' (viewport_rectangle v r)"

definition repaint_ops :: "viewport \<Rightarrow> rectangle option list \<Rightarrow> draw_op list" where
  "repaint_ops v rs = map (paint_op v) (present rs)"

text \<open>
  The canvas after one full repaint, and the element of the live preview that spans from
  the anchor event to the current event.
\<close>

definition repainted :: "viewport \<Rightarrow> rectangle option list \<Rightarrow> canvas \<Rightarrow> canvas" where
  "repainted v rs c =
     c\<lparr>fillStyle := (if present rs = [] then fillStyle c else ''black''),
       ops := ops c @ repaint_ops v rs\<rparr>"

definition preview :: "viewport \<Rightarrow> mouse_event \<Rightarrow> mouse_event \<Rightarrow> element" where
  "preview v a e =
     \<lparr>isRenderable = True,
      viewportRectangle = viewport_rectangle v (createRectangle_body v a e)\<rparr>"

text \<open>
  What holds of the closure variables whenever a listener runs: the canvas the listeners
  were added to exists, and \<^verbatim>\<open>createRectangle\<close> is set while \<^verbatim>\<open>painting\<close> is.
\<close>

definition listening :: "session \<Rightarrow> bool" where
  "listening s =
     (canvas (parameters s) \<noteq> None \<and>
      (if painting s then createRectangle s \<noteq> None else True))"

section \<open>The builder\<close>

subsection \<open>AnonymizationLayerBuilder\<close>

text \<open>
  The page container: the two style properties the builder reads, and the tag names of
  the children appended to it. The page is an opaque identifier: only
  \<^verbatim>\<open>getAnnotations\<close> is called on it, and the annotations it delivers are not read.
\<close>

record pageDiv =
  div_style_width :: string
  div_style_height :: string
  children :: "string list"

text \<open>
  Modelled from the spec: the localization service and its default \<^verbatim>\<open>NullL10n\<close> are not
  among the source files. The spec says that the builder requests localization of the
  translatable attributes of the canvas element; the model of the service is the number
  of such requests it received.
\<close>

record l10n =
  translate_requests :: nat

definition NullL10n :: l10n where
  "NullL10n = \<lparr>translate_requests = 0\<rparr>"

definition translate :: "l10n \<Rightarrow> l10n" where
  "translate l = l\<lparr>translate_requests := translate_requests l + 1\<rparr>"

definition appendChild :: "string \<Rightarrow> pageDiv \<Rightarrow> pageDiv" where
  "appendChild tag d = d\<lparr>children := children d @ [tag]\<rparr>"

text \<open>
  The fields of the builder object: \<^verbatim>\<open>this.pageDiv\<close>, \<^verbatim>\<open>this.pdfPage\<close>,
  \<^verbatim>\<open>this.l10n\<close>, \<^verbatim>\<open>this.rectangles\<close>, \<^verbatim>\<open>this.canvas\<close> and \<^verbatim>\<open>this._cancelled\<close>.
\<close>

record builder =
  pageDiv :: pageDiv
  pdfPage :: nat
  l10n :: l10n
  this_rectangles :: "rectangle option list"
  this_canvas :: "canvas option"
  cancelled :: bool

definition AnonymizationLayerBuilder ::
  "pageDiv \<Rightarrow> nat \<Rightarrow> rectangle option list \<Rightarrow> l10n option \<Rightarrow> builder" where
  "AnonymizationLayerBuilder pd pg rs l =
     \<lparr>pageDiv = pd, pdfPage = pg,
      l10n = (case l of None \<Rightarrow> NullL10n | Some x \<Rightarrow> x),
      this_rectangles = rs, this_canvas = None, cancelled = False\<rparr>"

definition updateCanvas :: "viewport \<Rightarrow> builder \<Rightarrow> builder outcome" where
  "updateCanvas v b =
     (case this_canvas b of
        None \<Rightarrow> Threw TypeError b
      | Some c \<Rightarrow>
          Returned
            (b\<lparr>this_canvas :=
                 Some ((set_height (viewport_height v) (set_width (viewport_width v) c))
                   \<lparr>style_width := div_style_width (pageDiv b),
                    style_height := div_style_height (pageDiv b)\<rparr>)\<rparr>))"

definition cancel :: "builder \<Rightarrow> builder" where
  "cancel b = b\<lparr>cancelled := True\<rparr>"

definition hide :: "builder \<Rightarrow> builder outcome" where
  "hide b =
     (case this_canvas b of
        None \<Rightarrow> Returned b
      | Some c \<Rightarrow> Returned (b\<lparr>this_canvas := Some (setAttribute ''hidden'' ''true'' c)\<rparr>))"

text \<open>
  The parameters object holds references to the canvas and to the rectangle list of the
  builder, so what the layer did to them shows in the builder.
\<close>

definition sync :: "builder \<Rightarrow> parameters \<Rightarrow> builder" where
  "sync b p = b\<lparr>this_canvas := canvas p, this_rectangles := rectangles p\<rparr>"

text \<open>
  \<^verbatim>\<open>render(viewport, intent)\<close> starts the annotation fetch and returns; all it does to
  the builder is in the callback it passes to \<^verbatim>\<open>then\<close>, which runs in a later turn
  when the fetch resolves, and never when the fetch fails. The definition is that
  callback. The \<^verbatim>\<open>intent\<close> goes to the fetch only, and the callback does not read the
  annotations. In the branch that finds a canvas, the parameters object refers to the
  canvas that \<^verbatim>\<open>updateCanvas\<close> has just resized; in the other branch its \<^verbatim>\<open>canvas\<close>
  is assigned after the new canvas was sized and appended.
\<close>

definition AnonymizationLayerBuilder_render :: "viewport \<Rightarrow> builder \<Rightarrow> builder outcome" where
  "AnonymizationLayerBuilder_render v b =
     (if cancelled b then Returned b
      else if this_canvas b \<noteq> None then
        (case updateCanvas v b of
           Threw err b1 \<Rightarrow> Threw err b1
         | Returned b1 \<Rightarrow>
             (case AnonymizationLayer_update
                     \<lparr>viewport = clone True v, canvas = this_canvas b1,
                      rectangles = this_rectangles b1\<rparr> of
                Threw err p \<Rightarrow> Threw err (sync b1 p)
              | Returned p \<Rightarrow> Returned (sync b1 p)))
      else
        (case updateCanvas v (b\<lparr>this_canvas := Some createElement_canvas\<rparr>) of
           Threw err b1 \<Rightarrow> Threw err b1
         | Returned b1 \<Rightarrow>
             (let b2 = b1\<lparr>pageDiv := appendChild ''canvas'' (pageDiv b1)\<rparr>
              in case AnonymizationLayer_render
                        \<lparr>viewport = clone True v, canvas = this_canvas b2,
                         rectangles = this_rectangles b2\<rparr> of
                   Threw err s \<Rightarrow> Threw err (sync b2 (parameters s))
                 | Returned s \<Rightarrow>
                     Returned ((sync b2 (parameters s))\<lparr>l10n := translate (l10n b2)\<rparr>))))"

text \<open>
  What happens to a builder, in the order it happens: a render callback runs (the fetch
  of a \<^verbatim>\<open>render\<close> call resolved), \<^verbatim>\<open>cancel\<close> is called, \<^verbatim>\<open>hide\<close> is called.
\<close>

datatype builder_call = RenderResolved viewport | Cancel | Hide

fun builder_step :: "builder_call \<Rightarrow> builder \<Rightarrow> builder outcome" where
  "builder_step (RenderResolved v) b = AnonymizationLayerBuilder_render v b"
| "builder_step Cancel b = Returned (cancel b)"
| "builder_step Hide b = hide b"

fun builder_run :: "builder_call list \<Rightarrow> builder \<Rightarrow> builder" where
  "builder_run [] b = b"
| "builder_run (c # cs) b = builder_run cs (state_of (builder_step c b))"

subsection \<open>DefaultAnonymizationLayerFactory\<close>

text \<open>
  \<^verbatim>\<open>createAnonymizationBuilder\<close> evaluates the object literal
  \<^verbatim>\<open>{ pageDiv, pdfPage, rectangles, imageResourcesPath, l10n, }\<close>, whose shorthand
  properties are identifier references, resolved in order through the scopes that
  enclose them: the parameters of the method, the bindings of the module (its two
  imports and its two classes), and the global names of the host, which the source does
  not determine and which are a parameter. A reference that resolves nowhere throws a
  \<^verbatim>\<open>ReferenceError\<close>.
\<close>

definition method_scope :: "string list" where
  "method_scope = [''pageDiv'', ''pdfPage'', ''rectangles'', ''l10n'']"

definition module_scope :: "string list" where
  "module_scope =
     [''AnonymizationLayer'', ''NullL10n'', ''AnonymizationLayerBuilder'',
      ''DefaultAnonymizationLayerFactory'']"

definition shorthand_properties :: "string list" where
  "shorthand_properties =
     [''pageDiv'', ''pdfPage'', ''rectangles'', ''imageResourcesPath'', ''l10n'']"

definition unresolved :: "string list \<Rightarrow> string list" where
  "unresolved globals =
     filter (\<lambda>x. x \<notin> set (method_scope @ module_scope @ globals)) shorthand_properties"

definition createAnonymizationBuilder ::
  "string list \<Rightarrow> pageDiv \<Rightarrow> nat \<Rightarrow> rectangle option list \<Rightarrow> l10n option \<Rightarrow> error + builder" where
  "createAnonymizationBuilder globals pd pg rs l =
     (case unresolved globals of
        [] \<Rightarrow> Inr (AnonymizationLayerBuilder pd pg rs
                  (Some (case l of None \<Rightarrow> NullL10n | Some x \<Rightarrow> x)))
      | x # xs \<Rightarrow> Inl ReferenceError)"

section \<open>Geometry of the element factory\<close>

lemma abs_diff_same_side:
  fixes a b :: rat
  assumes "(a \<le> 0 \<and> b \<le> 0) \<or> (0 \<le> a \<and> 0 \<le> b)"
  shows "\<bar>\<bar>b\<bar> - \<bar>a\<bar>\<bar> = \<bar>b - a\<bar>"
  using assms by auto

lemma abs_diff_only_same_side:
  fixes a b :: rat
  assumes "\<bar>\<bar>b\<bar> - \<bar>a\<bar>\<bar> = \<bar>b - a\<bar>"
  shows "(a \<le> 0 \<and> b \<le> 0) \<or> (0 \<le> a \<and> 0 \<le> b)"
  using assms by (auto simp: abs_if split: if_splits)

lemma abs_scaled_diff:
  fixes s :: rat
  shows "\<bar>a * s - b * s\<bar> = \<bar>a - b\<bar> * \<bar>s\<bar>" "\<bar>b * s - a * s\<bar> = \<bar>a - b\<bar> * \<bar>s\<bar>"
  by (simp_all flip: left_diff_distrib add: abs_mult abs_minus_commute)

text \<open>
  The transform is a quarter turn, a uniform scaling and a translation, so the extent of
  the converted corners is the extent of the page-space corners times the square of the
  scale, whichever axis each page axis lands on.
\<close>

lemma converted_extent:
  "\<bar>fst (convertToViewportPoint v c d) - fst (convertToViewportPoint v a b)\<bar> *
   \<bar>snd (convertToViewportPoint v c d) - snd (convertToViewportPoint v a b)\<bar> =
   \<bar>c - a\<bar> * \<bar>d - b\<bar> * (scale v)\<^sup>2"
proof -
  obtain bx0 by0 bx1 by1 where vb: "viewBox v = (bx0, by0, bx1, by1)"
    by (cases "viewBox v") auto
  consider "rotation v mod 360 = 180" | "rotation v mod 360 = 90" | "rotation v mod 360 = 270"
    | "rotation v mod 360 \<noteq> 180" "rotation v mod 360 \<noteq> 90" "rotation v mod 360 \<noteq> 270"
    by blast
  then show ?thesis
    by cases
      (simp_all add: convertToViewportPoint_def applyTransform_def transform_def vb
         rotate_matrix_def flip_matrix_def Let_def abs_scaled_diff power2_eq_square
         abs_minus_commute)
qed

lemma viewport_rectangle_area:
  assumes "corners_same_side v r"
  shows "canvas_area (viewport_rectangle v r) = page_area r * (scale v)\<^sup>2"
proof -
  let ?H = "viewport_height v"
  let ?p = "convertToViewportPoint v (x0 r) (y0 r)"
  let ?q = "convertToViewportPoint v (x1 r) (y1 r)"
  have h: "\<bar>\<bar>snd ?q - ?H\<bar> - \<bar>snd ?p - ?H\<bar>\<bar> = \<bar>snd ?q - snd ?p\<bar>"
    using assms abs_diff_same_side [of "snd ?p - ?H" "snd ?q - ?H"]
    by (simp add: corners_same_side_def Let_def)
  have a: "canvas_area (viewport_rectangle v r) = \<bar>fst ?q - fst ?p\<bar> * \<bar>snd ?q - snd ?p\<bar>"
    by (simp add: canvas_area_def viewport_rectangle_def Let_def abs_mult h)
  show ?thesis
    by (simp add: a page_area_def converted_extent)
qed

text \<open>
  Conversely, when the converted corners differ in \<open>x\<close>, the areas agree only if the
  corners lie on the same side of that line.
\<close>

lemma area_only_same_side:
  assumes "canvas_area (viewport_rectangle v r) = page_area r * (scale v)\<^sup>2"
      and "fst (convertToViewportPoint v (x1 r) (y1 r)) \<noteq> fst (convertToViewportPoint v (x0 r) (y0 r))"
  shows "corners_same_side v r"
proof -
  let ?H = "viewport_height v"
  let ?p = "convertToViewportPoint v (x0 r) (y0 r)"
  let ?q = "convertToViewportPoint v (x1 r) (y1 r)"
  have "\<bar>fst ?q - fst ?p\<bar> * \<bar>\<bar>snd ?q - ?H\<bar> - \<bar>snd ?p - ?H\<bar>\<bar> =
        \<bar>fst ?q - fst ?p\<bar> * \<bar>snd ?q - snd ?p\<bar>"
    using assms(1) converted_extent [of v "x1 r" "y1 r" "x0 r" "y0 r"]
    by (simp add: canvas_area_def viewport_rectangle_def Let_def abs_mult page_area_def)
  with assms(2) have "\<bar>\<bar>snd ?q - ?H\<bar> - \<bar>snd ?p - ?H\<bar>\<bar> = \<bar>(snd ?q - ?H) - (snd ?p - ?H)\<bar>"
    by simp
  from abs_diff_only_same_side [OF this] show ?thesis
    by (simp add: corners_same_side_def Let_def)
qed

text \<open>
  A viewport with a non-zero scale converts a canvas point to page space and back to the
  same point. Hence every rectangle that the mouse listeners build from events at or
  below the top edge of the canvas (\<open>offsetY \<ge> 0\<close>) has its converted corners on one side.
\<close>

lemma round_trip:
  assumes "scale v \<noteq> 0"
  shows "convertToViewportPoint v (fst (convertToPdfPoint v x y)) (snd (convertToPdfPoint v x y))
           = (x, y)"
proof -
  obtain bx0 by0 bx1 by1 where vb: "viewBox v = (bx0, by0, bx1, by1)"
    by (cases "viewBox v") auto
  consider "rotation v mod 360 = 180" | "rotation v mod 360 = 90" | "rotation v mod 360 = 270"
    | "rotation v mod 360 \<noteq> 180" "rotation v mod 360 \<noteq> 90" "rotation v mod 360 \<noteq> 270"
    by blast
  then show ?thesis
    using assms
    by cases
      (simp_all add: convertToViewportPoint_def convertToPdfPoint_def applyTransform_def
         applyInverseTransform_def transform_def vb rotate_matrix_def flip_matrix_def Let_def
         field_simps)
qed

lemma drawn_rectangle_same_side:
  assumes "scale v \<noteq> 0" "0 \<le> offsetY a" "0 \<le> offsetY e"
  shows "corners_same_side v (createRectangle_body v a e)"
  using assms
  by (simp add: corners_same_side_def createRectangle_body_def Let_def round_trip)

text \<open>
  C6 (as amended). For every viewport, every canvas and every page-space rectangle whose
  two converted corners lie on the same side of the line \<open>y = viewport.height\<close>, the
  canvas-space rectangle \<open>[x, y, width, height]\<close> that \<^verbatim>\<open>create\<close> computes has absolute
  area \<open>|width * height|\<close> equal to the page-space area \<open>|x1 - x0| * |y1 - y0|\<close> times the
  square of the scale of the viewport, over exact arithmetic.
\<close>

theorem create_area_same_side:
  assumes "corners_same_side v r"
  shows "\<exists>el. create (Some c) r v = Inr el \<and>
              canvas_area (viewportRectangle el) = page_area r * (scale v)\<^sup>2"
  using viewport_rectangle_area [OF assms] by (simp add: create_def)

theorem create_area_same_side_witness:
  "corners_same_side
     \<lparr>viewBox = (0, 0, 100, 200), scale = 2, rotation = 90, shiftX = 0, shiftY = 0,
      dontFlip = True\<rparr>
     \<lparr>x0 = 10, y0 = 20, x1 = 40, y1 = 60\<rparr> \<and>
   (\<exists>el. create (Some createElement_canvas) \<lparr>x0 = 10, y0 = 20, x1 = 40, y1 = 60\<rparr>
           \<lparr>viewBox = (0, 0, 100, 200), scale = 2, rotation = 90, shiftX = 0, shiftY = 0,
            dontFlip = True\<rparr> = Inr el \<and>
         viewportRectangle el = (360, 180, - 80, - 60) \<and>
         canvas_area (viewportRectangle el) = 4800)"
proof -
  let ?v = "\<lparr>viewBox = (0, 0, 100, 200), scale = 2, rotation = 90, shiftX = 0, shiftY = 0,
             dontFlip = True\<rparr>"
  let ?r = "\<lparr>x0 = 10, y0 = 20, x1 = 40, y1 = 60\<rparr>"
  have side: "corners_same_side ?v ?r"
    by (simp add: corners_same_side_def convertToViewportPoint_def applyTransform_def
        transform_def rotate_matrix_def flip_matrix_def viewport_height_def Let_def)
  have rect: "viewport_rectangle ?v ?r = (360, 180, - 80, - 60)"
    by (simp add: viewport_rectangle_def convertToViewportPoint_def applyTransform_def
        transform_def rotate_matrix_def flip_matrix_def viewport_height_def Let_def)
  from create_area_same_side [OF side, of createElement_canvas]
  show ?thesis using side rect by (simp add: create_def page_area_def)
qed

text \<open>
  The claim as first stated fails for a rectangle that straddles the top edge of the page:
  with the identity transform of a 100 by 100 page, the rectangle \<open>(0, 90)-(10, 110)\<close>
  has page-space area 200 and is given the canvas-space rectangle \<open>[0, 10, 10, 0]\<close> of
  area 0.
\<close>

theorem create_area_counterexample:
  "create (Some createElement_canvas) \<lparr>x0 = 0, y0 = 90, x1 = 10, y1 = 110\<rparr>
     \<lparr>viewBox = (0, 0, 100, 100), scale = 1, rotation = 0, shiftX = 0, shiftY = 0,
      dontFlip = True\<rparr>
   = Inr \<lparr>isRenderable = True, viewportRectangle = (0, 10, 10, 0)\<rparr> \<and>
   canvas_area (0, 10, 10, 0) = 0 \<and>
   page_area \<lparr>x0 = 0, y0 = 90, x1 = 10, y1 = 110\<rparr> *
     (scale \<lparr>viewBox = (0, 0, 100, 100), scale = 1, rotation = 0, shiftX = 0, shiftY = 0,
             dontFlip = True\<rparr>)\<^sup>2 = 200"
  by (simp add: create_def viewport_rectangle_def convertToViewportPoint_def
      applyTransform_def transform_def rotate_matrix_def flip_matrix_def
      viewport_height_def canvas_area_def page_area_def Let_def)

section \<open>Painting the rectangle list\<close>

text \<open>
  Without a factory, the loop throws at the first entry that is not \<^verbatim>\<open>null\<close> and has
  painted nothing by then; with the factory of \<^verbatim>\<open>render\<close> and a canvas, it runs
  through the list and leaves the canvas \<open>repainted\<close>.
\<close>

lemma loop_no_factory:
  "renderRectangles_loop None rs cv =
     (if present rs = [] then Returned cv else Threw TypeError cv)"
  by (induction rs rule: present.induct) simp_all

lemma repainted_Nil [simp]: "repainted v [] c = c"
  by (simp add: repainted_def repaint_ops_def)

lemma repainted_None [simp]: "repainted v (None # rs) c = repainted v rs c"
  by (simp add: repainted_def repaint_ops_def)

lemma repainted_Some:
  "repainted v (Some r # rs) c =
     repainted v rs (element_render \<lparr>isRenderable = True, viewportRectangle = viewport_rectangle v r\<rparr> c)"
  by (simp add: repainted_def repaint_ops_def element_render_def fillRect_def paint_op_def)

lemma loop_factory:
  assumes "canvas p \<noteq> None"
  shows "renderRectangles_loop (Some (rectangleFactory p)) rs (Some c) =
           Returned (Some (repainted (viewport p) rs c))"
  using assms
  by (induction rs arbitrary: c rule: present.induct)
     (auto simp: rectangleFactory_def create_def repainted_Some)

lemma repainted_append:
  "repainted v (rs @ rs') c = repainted v rs' (repainted v rs c)"
  by (induction rs arbitrary: c rule: present.induct) (simp_all add: repainted_Some)

lemma present_append: "present (xs @ ys) = present xs @ present ys"
  by (induction xs rule: present.induct) simp_all

lemma length_present: "length (present xs) = length (filter (\<lambda>x. x \<noteq> None) xs)"
  by (induction xs rule: present.induct) simp_all

lemma present_filter: "present xs = map the (filter (\<lambda>x. x \<noteq> None) xs)"
  by (induction xs rule: present.induct) simp_all

lemma renderRectangles_factory:
  assumes "canvas p = Some c"
  shows "renderRectangles p (Some (rectangleFactory p)) =
           Returned (p\<lparr>canvas := Some (repainted (viewport p) (rectangles p) c)\<rparr>)"
  using assms by (simp add: renderRectangles_def loop_factory)

lemma render_canvas:
  assumes "canvas p = Some c"
  shows "AnonymizationLayer_render p =
     Returned
       \<lparr>parameters = p\<lparr>canvas := Some (addEventListener ''mousemove''
            (addEventListener ''mouseup'' (addEventListener ''mousedown''
              (repainted (viewport p) (rectangles p) c))))\<rparr>,
        painting = False, createRectangle = None, rectangle = None\<rparr>"
  using assms
  by (simp add: AnonymizationLayer_render_def renderRectangles_factory registerCanvasEvents_def)

lemma update_outcome:
  "AnonymizationLayer_update p =
     (if present (rectangles p) \<noteq> [] then Threw TypeError p
      else case canvas p of
             None \<Rightarrow> Threw TypeError p
           | Some c \<Rightarrow> Returned (p\<lparr>canvas := Some (removeAttribute ''hidden'' c)\<rparr>))"
  by (simp add: AnonymizationLayer_update_def renderRectangles_def loop_no_factory
      split: option.splits)

text \<open>
  C5. For every rectangle list passed to \<^verbatim>\<open>AnonymizationLayer.render\<close> with a canvas,
  \<^verbatim>\<open>renderRectangles\<close> returns, and the drawing calls it adds to those the canvas
  already received are one \<^verbatim>\<open>fillRect\<close> in black per entry that is not \<^verbatim>\<open>null\<close>
  or \<^verbatim>\<open>undefined\<close>, in list order: the entries kept are exactly the list filtered
  for non-null entries, so a list with N of them yields N paint operations and an empty
  list none. The listeners that \<^verbatim>\<open>render\<close> installs afterwards add no drawing call.
\<close>

theorem render_paints_present_rectangles:
  "\<exists>s c'. renderRectangles \<lparr>viewport = v, canvas = Some c, rectangles = rs\<rparr>
              (Some (rectangleFactory \<lparr>viewport = v, canvas = Some c, rectangles = rs\<rparr>))
            = Returned \<lparr>viewport = v, canvas = Some (repainted v rs c), rectangles = rs\<rparr> \<and>
          AnonymizationLayer_render \<lparr>viewport = v, canvas = Some c, rectangles = rs\<rparr> = Returned s \<and>
          canvas (parameters s) = Some c' \<and>
          ops (repainted v rs c) = ops c @ map (paint_op v) (present rs) \<and>
          ops c' = ops c @ map (paint_op v) (present rs) \<and>
          present rs = map the (filter (\<lambda>x. x \<noteq> None) rs) \<and>
          length (ops c') = length (ops c) + length (filter (\<lambda>x. x \<noteq> None) rs)"
  using present_filter [of rs] length_present [of rs]
  by (simp add: render_canvas renderRectangles_factory repainted_def repaint_ops_def
      addEventListener_def del: not_None_eq)

text \<open>
  C1. What the code does where the claim fails: with a hidden canvas and a list of one
  rectangle, \<^verbatim>\<open>AnonymizationLayer.update\<close> throws a \<^verbatim>\<open>TypeError\<close> at the first
  rectangle, because it calls \<^verbatim>\<open>renderRectangles\<close> without the factory; the parameters
  are as before, so nothing was painted and the canvas still carries \<^verbatim>\<open>hidden\<close>.
\<close>

theorem update_throws_on_rectangle:
  "AnonymizationLayer_update
     \<lparr>viewport = \<lparr>viewBox = (0, 0, 100, 100), scale = 1, rotation = 0, shiftX = 0, shiftY = 0,
                  dontFlip = True\<rparr>,
      canvas = Some (setAttribute ''hidden'' ''true'' createElement_canvas),
      rectangles = [Some \<lparr>x0 = 0, y0 = 0, x1 = 10, y1 = 10\<rparr>]\<rparr>
   = Threw TypeError
     \<lparr>viewport = \<lparr>viewBox = (0, 0, 100, 100), scale = 1, rotation = 0, shiftX = 0, shiftY = 0,
                  dontFlip = True\<rparr>,
      canvas = Some (setAttribute ''hidden'' ''true'' createElement_canvas),
      rectangles = [Some \<lparr>x0 = 0, y0 = 0, x1 = 10, y1 = 10\<rparr>]\<rparr> \<and>
   ops (setAttribute ''hidden'' ''true'' createElement_canvas) = [] \<and>
   attributes (setAttribute ''hidden'' ''true'' createElement_canvas) ''hidden'' = Some ''true''"
  by (simp add: AnonymizationLayer_update_def renderRectangles_def setAttribute_def
      createElement_canvas_def)

text \<open>
  C8. Calling \<^verbatim>\<open>AnonymizationLayer.update\<close> a second time on the parameters object the
  first call left behind ends in the same way and leaves the same parameters, hence the
  same canvas (drawing calls, attributes and all other fields), as the first call alone.
  This holds on both paths of \<^verbatim>\<open>update\<close>: where it throws, nothing has changed; where
  it returns, it has drawn nothing and removing the attribute twice is removing it once.
\<close>

theorem update_idempotent:
  "AnonymizationLayer_update (state_of (AnonymizationLayer_update p)) = AnonymizationLayer_update p \<and>
   state_of (AnonymizationLayer_update (state_of (AnonymizationLayer_update p))) =
     state_of (AnonymizationLayer_update p)"
  by (simp add: update_outcome removeAttribute_def split: option.splits)

section \<open>The mouse listeners\<close>

text \<open>
  What each listener does to a session that is \<open>listening\<close>; that every event keeps
  the session so and keeps its viewport; and that a session found painting is inside a
  gesture: the events so far end with a \<^verbatim>\<open>mousedown\<close> that found the state idle and
  whose event \<^verbatim>\<open>createRectangle\<close> still holds, followed by no \<^verbatim>\<open>mouseup\<close>.
\<close>

lemma rerender_canvas:
  assumes "canvas (parameters s) = Some c"
  shows "rerender s =
     Returned (s\<lparr>parameters := (parameters s)\<lparr>canvas :=
        Some (repainted (viewport (parameters s)) (rectangles (parameters s)) c)\<rparr>\<rparr>)"
  using assms by (simp add: rerender_def renderRectangles_def loop_factory)

lemma mouseup_painting:
  assumes "canvas (parameters s) = Some c" "painting s" "createRectangle s = Some a"
  shows "mouseup e s =
     Returned (s\<lparr>parameters :=
        \<lparr>viewport = viewport (parameters s),
         canvas = Some (repainted (viewport (parameters s))
           (rectangles (parameters s) @ [Some (createRectangle_body (viewport (parameters s)) a e)]) c),
         rectangles = rectangles (parameters s) @ [Some (createRectangle_body (viewport (parameters s)) a e)]\<rparr>,
        painting := False\<rparr>)"
  using assms by (simp add: mouseup_def push_rectangle_def rerender_canvas)

lemma mouseup_idle: "\<not> painting s \<Longrightarrow> mouseup e s = Returned s"
  by (simp add: mouseup_def)

lemma clear_preview_none: "rectangle s = None \<Longrightarrow> clear_preview s = Returned s"
  by (simp add: clear_preview_def)

lemma clear_preview_some:
  assumes "canvas (parameters s) = Some c" "rectangle s = Some el"
  shows "clear_preview s =
     Returned (s\<lparr>parameters := (parameters s)\<lparr>canvas :=
        Some (repainted (viewport (parameters s)) (rectangles (parameters s)) (element_clear el c))\<rparr>,
        rectangle := None\<rparr>)"
  using assms by (simp add: clear_preview_def rerender_canvas)

lemma paint_preview_idle: "\<not> painting s \<Longrightarrow> paint_preview e s = Returned s"
  by (simp add: paint_preview_def)

lemma paint_preview_painting:
  assumes "canvas (parameters s) = Some c" "painting s" "createRectangle s = Some a"
  shows "paint_preview e s =
     Returned (s\<lparr>rectangle := Some (preview (viewport (parameters s)) a e),
        parameters := (parameters s)\<lparr>canvas :=
          Some (element_render (preview (viewport (parameters s)) a e) c)\<rparr>\<rparr>)"
  using assms by (simp add: paint_preview_def rectangleFactory_def create_def preview_def)

lemma dispatch_listening:
  assumes "listening s"
  shows "listening (state_of (dispatch ev s)) \<and>
         viewport (parameters (state_of (dispatch ev s))) = viewport (parameters s)"
proof -
  from assms obtain c where c: "canvas (parameters s) = Some c"
    by (auto simp: listening_def)
  show ?thesis
  proof (cases ev)
    case (MouseDown e)
    with assms show ?thesis by (auto simp: mousedown_def listening_def split: if_splits)
  next
    case (MouseUp e)
    show ?thesis
    proof (cases "painting s")
      case True
      with assms obtain a where "createRectangle s = Some a" by (auto simp: listening_def)
      with True c MouseUp show ?thesis by (simp add: mouseup_painting listening_def)
    next
      case False
      with assms MouseUp show ?thesis by (simp add: mouseup_idle)
    qed
  next
    case (MouseMove e)
    obtain s1 c1 where s1: "clear_preview s = Returned s1" "canvas (parameters s1) = Some c1"
      "painting s1 = painting s" "createRectangle s1 = createRectangle s"
      "viewport (parameters s1) = viewport (parameters s)"
      using c by (cases "rectangle s") (simp_all add: clear_preview_none clear_preview_some)
    show ?thesis
    proof (cases "painting s")
      case True
      with assms obtain a where "createRectangle s = Some a" by (auto simp: listening_def)
      with True s1 MouseMove show ?thesis
        by (simp add: mousemove_def paint_preview_painting listening_def)
    next
      case False
      with s1 MouseMove show ?thesis
        by (simp add: mousemove_def paint_preview_idle listening_def)
    qed
  qed
qed

lemma run_append: "run (xs @ ys) s = run ys (run xs s)"
  by (induction xs arbitrary: s) simp_all

lemma run_listening:
  assumes "listening s"
  shows "listening (run es s) \<and> viewport (parameters (run es s)) = viewport (parameters s)"
  using assms
proof (induction es arbitrary: s)
  case Nil
  then show ?case by simp
next
  case (Cons ev es)
  from dispatch_listening [OF Cons.prems, of ev] Cons.IH [of "state_of (dispatch ev s)"]
  show ?case by simp
qed

lemma registered_listening:
  assumes "registerCanvasEvents p = Returned s0"
  shows "listening s0" "viewport (parameters s0) = viewport p" "\<not> painting s0" "rectangle s0 = None"
    "rectangles (parameters s0) = rectangles p"
  using assms by (auto simp: registerCanvasEvents_def listening_def split: option.splits)

lemma reachable_listening:
  assumes "registerCanvasEvents p = Returned s0"
  shows "listening (run es s0)" "viewport (parameters (run es s0)) = viewport p"
  using run_listening [OF registered_listening(1) [OF assms], of es]
    registered_listening(2) [OF assms] by simp_all

lemma painting_gesture:
  assumes "listening s0" "\<not> painting s0" "painting (run es s0)"
  shows "\<exists>pre a mid. es = pre @ MouseDown a # mid \<and> \<not> painting (run pre s0) \<and>
           \<not> list_ex is_MouseUp mid \<and> createRectangle (run es s0) = Some a"
  using assms(3)
proof (induction es rule: rev_induct)
  case Nil
  with assms(2) show ?case by simp
next
  case (snoc ev es)
  let ?s = "run es s0"
  have lis: "listening ?s" using run_listening [OF assms(1)] by simp
  then obtain c where c: "canvas (parameters ?s) = Some c" by (auto simp: listening_def)
  have step: "run (es @ [ev]) s0 = state_of (dispatch ev ?s)" by (simp add: run_append)
  show ?case
  proof (cases ev)
    case (MouseDown e)
    show ?thesis
    proof (cases "painting ?s")
      case True
      from snoc.IH [OF True] obtain pre a mid where
        d: "es = pre @ MouseDown a # mid" "\<not> painting (run pre s0)"
           "\<not> list_ex is_MouseUp mid" "createRectangle ?s = Some a" by blast
      have "es @ [ev] = pre @ MouseDown a # (mid @ [ev])" using d(1) by simp
      moreover have "\<not> list_ex is_MouseUp (mid @ [ev])" using d(3) MouseDown by simp
      moreover have "createRectangle (run (es @ [ev]) s0) = Some a"
        using step MouseDown True d(4) by (simp add: mousedown_def)
      ultimately show ?thesis using d(2) by blast
    next
      case False
      have "createRectangle (run (es @ [ev]) s0) = Some e"
        using step MouseDown False by (simp add: mousedown_def)
      moreover have "es @ [ev] = es @ MouseDown e # []" using MouseDown by simp
      moreover have "\<not> list_ex is_MouseUp []" by simp
      ultimately show ?thesis using False by blast
    qed
  next
    case (MouseUp e)
    have "\<not> painting (run (es @ [ev]) s0)"
    proof (cases "painting ?s")
      case True
      with lis obtain a where "createRectangle ?s = Some a" by (auto simp: listening_def)
      with True c step MouseUp show ?thesis by (simp add: mouseup_painting)
    next
      case False
      with step MouseUp show ?thesis by (simp add: mouseup_idle)
    qed
    with snoc.prems show ?thesis by simp
  next
    case (MouseMove e)
    obtain s1 c1 where s1: "clear_preview ?s = Returned s1" "canvas (parameters s1) = Some c1"
      "painting s1 = painting ?s" "createRectangle s1 = createRectangle ?s"
      using c by (cases "rectangle ?s") (simp_all add: clear_preview_none clear_preview_some)
    have p: "painting ?s"
    proof (rule ccontr)
      assume "\<not> painting ?s"
      with s1 step MouseMove have "\<not> painting (run (es @ [ev]) s0)"
        by (simp add: mousemove_def paint_preview_idle)
      with snoc.prems show False by simp
    qed
    from snoc.IH [OF p] obtain pre a mid where
      d: "es = pre @ MouseDown a # mid" "\<not> painting (run pre s0)"
         "\<not> list_ex is_MouseUp mid" "createRectangle ?s = Some a" by blast
    have "es @ [ev] = pre @ MouseDown a # (mid @ [ev])" using d(1) by simp
    moreover have "\<not> list_ex is_MouseUp (mid @ [ev])" using d(3) MouseMove by simp
    moreover have "createRectangle (run (es @ [ev]) s0) = Some a"
      using step MouseMove p d(4) s1 by (simp add: mousemove_def paint_preview_painting)
    ultimately show ?thesis using d(2) by blast
  qed
qed

text \<open>The definitions that evaluate the layer on concrete events.\<close>

lemmas eval_defs =
  AnonymizationLayer_render_def renderRectangles_def registerCanvasEvents_def
  mousedown_def mouseup_def mousemove_def clear_preview_def paint_preview_def rerender_def
  push_rectangle_def rectangleFactory_def create_def createRectangle_body_def
  viewport_rectangle_def convertToViewportPoint_def convertToPdfPoint_def applyTransform_def
  applyInverseTransform_def transform_def rotate_matrix_def flip_matrix_def
  viewport_height_def element_render_def element_clear_def fillRect_def clearRect_def
  addEventListener_def createElement_canvas_def Let_def

lemma anchor_of_down_move:
  assumes "[MouseDown x, MouseMove y] = pre @ MouseDown a # mid"
  shows "a = x"
proof (cases pre)
  case Nil
  with assms show ?thesis by simp
next
  case (Cons z zs)
  with assms have "[MouseMove y] = zs @ MouseDown a # mid" by simp
  then show ?thesis by (cases zs) simp_all
qed

text \<open>
  C2. After the listeners were installed and after every sequence of events, a
  \<^verbatim>\<open>mouseup\<close> that finds the state painting returns normally, and: the events so far
  end with a \<^verbatim>\<open>mousedown\<close> at some anchor \<open>a\<close> that found the state idle, followed
  by no \<^verbatim>\<open>mouseup\<close>; exactly one rectangle, built from \<open>a\<close> and the release point
  (whatever its width and height), is appended to the rectangle list; the canvas receives
  one paint call for every non-null rectangle of the extended list, in order; \<^verbatim>\<open>painting\<close>
  is false afterwards; and nothing else of the state changes.
\<close>

theorem mouseup_appends_and_repaints:
  assumes "registerCanvasEvents p = Returned s0"
      and "painting (run es s0)"
  shows "\<exists>pre a mid c.
           es = pre @ MouseDown a # mid \<and> \<not> painting (run pre s0) \<and>
           \<not> list_ex is_MouseUp mid \<and>
           canvas (parameters (run es s0)) = Some c \<and>
           mouseup e (run es s0) =
             Returned ((run es s0)
               \<lparr>parameters :=
                  \<lparr>viewport = viewport p,
                   canvas = Some (c\<lparr>fillStyle := ''black'',
                     ops := ops c @ repaint_ops (viewport p)
                       (rectangles (parameters (run es s0)) @
                        [Some (createRectangle_body (viewport p) a e)])\<rparr>),
                   rectangles = rectangles (parameters (run es s0)) @
                     [Some (createRectangle_body (viewport p) a e)]\<rparr>,
                painting := False\<rparr>)"
proof -
  let ?s = "run es s0"
  have l: "listening s0" and idle: "\<not> painting s0"
    using registered_listening [OF assms(1)] by simp_all
  from painting_gesture [OF l idle assms(2)] obtain pre a mid where
    d: "es = pre @ MouseDown a # mid" "\<not> painting (run pre s0)"
       "\<not> list_ex is_MouseUp mid" "createRectangle ?s = Some a" by blast
  from reachable_listening [OF assms(1), of es] obtain c where
    c: "canvas (parameters ?s) = Some c" and v: "viewport (parameters ?s) = viewport p"
    by (auto simp: listening_def)
  have "mouseup e ?s =
     Returned (?s\<lparr>parameters :=
        \<lparr>viewport = viewport p,
         canvas = Some (c\<lparr>fillStyle := ''black'',
           ops := ops c @ repaint_ops (viewport p)
             (rectangles (parameters ?s) @ [Some (createRectangle_body (viewport p) a e)])\<rparr>),
         rectangles = rectangles (parameters ?s) @
           [Some (createRectangle_body (viewport p) a e)]\<rparr>,
        painting := False\<rparr>)"
    using mouseup_painting [OF c assms(2) d(4), of e]
    by (simp add: v repainted_def present_append)
  with d c show ?thesis by blast
qed

theorem mouseup_appends_and_repaints_witness:
  "registerCanvasEvents
     \<lparr>viewport = \<lparr>viewBox = (0, 0, 100, 100), scale = 1, rotation = 0, shiftX = 0,
                  shiftY = 0, dontFlip = True\<rparr>,
      canvas = Some createElement_canvas, rectangles = []\<rparr> =
   Returned
     \<lparr>parameters =
        \<lparr>viewport = \<lparr>viewBox = (0, 0, 100, 100), scale = 1, rotation = 0, shiftX = 0,
                     shiftY = 0, dontFlip = True\<rparr>,
         canvas = Some (createElement_canvas\<lparr>listeners := [''mousedown'', ''mouseup'', ''mousemove'']\<rparr>),
         rectangles = []\<rparr>,
      painting = False, createRectangle = None, rectangle = None\<rparr> \<and>
   painting
     (run [MouseDown \<lparr>offsetX = 10, offsetY = 10\<rparr>, MouseMove \<lparr>offsetX = 50, offsetY = 40\<rparr>]
        \<lparr>parameters =
           \<lparr>viewport = \<lparr>viewBox = (0, 0, 100, 100), scale = 1, rotation = 0, shiftX = 0,
                        shiftY = 0, dontFlip = True\<rparr>,
            canvas = Some (createElement_canvas\<lparr>listeners := [''mousedown'', ''mouseup'', ''mousemove'']\<rparr>),
            rectangles = []\<rparr>,
         painting = False, createRectangle = None, rectangle = None\<rparr>) \<and>
   rectangles (parameters (state_of (mouseup \<lparr>offsetX = 50, offsetY = 40\<rparr>
     (run [MouseDown \<lparr>offsetX = 10, offsetY = 10\<rparr>, MouseMove \<lparr>offsetX = 50, offsetY = 40\<rparr>]
        \<lparr>parameters =
           \<lparr>viewport = \<lparr>viewBox = (0, 0, 100, 100), scale = 1, rotation = 0, shiftX = 0,
                        shiftY = 0, dontFlip = True\<rparr>,
            canvas = Some (createElement_canvas\<lparr>listeners := [''mousedown'', ''mouseup'', ''mousemove'']\<rparr>),
            rectangles = []\<rparr>,
         painting = False, createRectangle = None, rectangle = None\<rparr>)))) =
     [Some \<lparr>x0 = 10, y0 = 90, x1 = 50, y1 = 60\<rparr>] \<and>
   \<not> painting (state_of (mouseup \<lparr>offsetX = 50, offsetY = 40\<rparr>
     (run [MouseDown \<lparr>offsetX = 10, offsetY = 10\<rparr>, MouseMove \<lparr>offsetX = 50, offsetY = 40\<rparr>]
        \<lparr>parameters =
           \<lparr>viewport = \<lparr>viewBox = (0, 0, 100, 100), scale = 1, rotation = 0, shiftX = 0,
                        shiftY = 0, dontFlip = True\<rparr>,
            canvas = Some (createElement_canvas\<lparr>listeners := [''mousedown'', ''mouseup'', ''mousemove'']\<rparr>),
            rectangles = []\<rparr>,
         painting = False, createRectangle = None, rectangle = None\<rparr>)))"
proof -
  let ?p = "\<lparr>viewport = \<lparr>viewBox = (0, 0, 100, 100), scale = 1, rotation = 0, shiftX = 0,
                  shiftY = 0, dontFlip = True\<rparr>,
      canvas = Some createElement_canvas, rectangles = []\<rparr>"
  let ?s0 = "\<lparr>parameters =
        \<lparr>viewport = \<lparr>viewBox = (0, 0, 100, 100), scale = 1, rotation = 0, shiftX = 0,
                     shiftY = 0, dontFlip = True\<rparr>,
         canvas = Some (createElement_canvas\<lparr>listeners := [''mousedown'', ''mouseup'', ''mousemove'']\<rparr>),
         rectangles = []\<rparr>,
      painting = False, createRectangle = None, rectangle = None\<rparr>"
  let ?es = "[MouseDown \<lparr>offsetX = 10, offsetY = 10\<rparr>, MouseMove \<lparr>offsetX = 50, offsetY = 40\<rparr>]"
  let ?e = "\<lparr>offsetX = 50, offsetY = 40\<rparr>"
  define s where "s = run ?es ?s0"
  have reg: "registerCanvasEvents ?p = Returned ?s0"
    by (simp add: registerCanvasEvents_def addEventListener_def createElement_canvas_def)
  have pt: "painting (run ?es ?s0)"
    by (simp add: eval_defs)
  from mouseup_appends_and_repaints [OF reg pt, of ?e] obtain pre a mid c where
    d: "?es = pre @ MouseDown a # mid"
    and m: "mouseup ?e (run ?es ?s0) =
             Returned ((run ?es ?s0)
               \<lparr>parameters :=
                  \<lparr>viewport = viewport ?p,
                   canvas = Some (c\<lparr>fillStyle := ''black'',
                     ops := ops c @ repaint_ops (viewport ?p)
                       (rectangles (parameters (run ?es ?s0)) @
                        [Some (createRectangle_body (viewport ?p) a ?e)])\<rparr>),
                   rectangles = rectangles (parameters (run ?es ?s0)) @
                     [Some (createRectangle_body (viewport ?p) a ?e)]\<rparr>,
                painting := False\<rparr>)"
    by blast
  have "pre = []"
  proof (cases pre)
    case Nil
    then show ?thesis .
  next
    case (Cons x xs)
    with d have tl: "[MouseMove \<lparr>offsetX = 50, offsetY = 40\<rparr>] = xs @ MouseDown a # mid"
      by simp
    then have "xs = []" by (cases xs) simp_all
    with tl show ?thesis by simp
  qed
  with d have a: "a = \<lparr>offsetX = 10, offsetY = 10\<rparr>" by simp
  have rs: "rectangles (parameters (run ?es ?s0)) = []"
    by (simp add: eval_defs)
  have body: "createRectangle_body (viewport ?p) \<lparr>offsetX = 10, offsetY = 10\<rparr> ?e =
      \<lparr>x0 = 10, y0 = 90, x1 = 50, y1 = 60\<rparr>"
    by (simp add: eval_defs)
  have up: "rectangles (parameters (state_of (mouseup ?e s))) =
      [Some \<lparr>x0 = 10, y0 = 90, x1 = 50, y1 = 60\<rparr>] \<and>
    \<not> painting (state_of (mouseup ?e s))"
    using m [folded s_def] rs [folded s_def] body by (simp add: a)
  show ?thesis
    using reg pt up unfolding s_def by (intro conjI) simp_all
qed

lemma mousemove_listening:
  assumes "canvas (parameters s) = Some c" "listening s"
  shows "mousemove e s =
    (if painting s then
       (case createRectangle s of
          None \<Rightarrow> Threw TypeError s
        | Some a \<Rightarrow>
            Returned (s\<lparr>rectangle := Some (preview (viewport (parameters s)) a e),
              parameters := (parameters s)\<lparr>canvas :=
                Some (c\<lparr>fillStyle := ''black'',
                  ops := ops c @
                    (case rectangle s of
                       None \<Rightarrow> []
                     | Some old \<Rightarrow> ClearRect (viewportRectangle old) #
                         repaint_ops (viewport (parameters s)) (rectangles (parameters s))) @
                    [FillRect ''black'' (viewportRectangle (preview (viewport (parameters s)) a e))]\<rparr>)\<rparr>\<rparr>))
     else
       (case rectangle s of
          None \<Rightarrow> Returned s
        | Some old \<Rightarrow>
            Returned (s\<lparr>rectangle := None,
              parameters := (parameters s)\<lparr>canvas :=
                Some (c\<lparr>fillStyle :=
                    (if present (rectangles (parameters s)) = [] then fillStyle c else ''black''),
                  ops := ops c @ ClearRect (viewportRectangle old) #
                    repaint_ops (viewport (parameters s)) (rectangles (parameters s))\<rparr>)\<rparr>\<rparr>)))"
proof (cases "rectangle s")
  case None
  with assms show ?thesis
    by (auto simp: mousemove_def clear_preview_none paint_preview_idle paint_preview_painting
        listening_def element_render_def fillRect_def split: option.splits)
next
  case (Some old)
  let ?s1 = "s\<lparr>parameters := (parameters s)\<lparr>canvas :=
        Some (repainted (viewport (parameters s)) (rectangles (parameters s)) (element_clear old c))\<rparr>,
        rectangle := None\<rparr>"
  have cp: "clear_preview s = Returned ?s1"
    using clear_preview_some [OF assms(1) Some] .
  show ?thesis
  proof (cases "painting s")
    case False
    then show ?thesis
      by (simp add: mousemove_def cp paint_preview_idle Some repainted_def element_clear_def
          clearRect_def)
  next
    case True
    with assms(2) obtain a where a: "createRectangle s = Some a"
      by (auto simp: listening_def)
    have "paint_preview e ?s1 =
       Returned (?s1\<lparr>rectangle := Some (preview (viewport (parameters ?s1)) a e),
        parameters := (parameters ?s1)\<lparr>canvas :=
          Some (element_render (preview (viewport (parameters ?s1)) a e)
            (repainted (viewport (parameters s)) (rectangles (parameters s)) (element_clear old c)))\<rparr>\<rparr>)"
      by (rule paint_preview_painting) (simp_all add: True a)
    then show ?thesis
      by (simp add: mousemove_def cp True a Some repainted_def element_clear_def
          clearRect_def element_render_def fillRect_def)
  qed
qed

text \<open>
  C3 (as amended). After the listeners were installed and after every sequence of events,
  a \<^verbatim>\<open>mousemove\<close> returns normally and
  \<^item> while painting, it clears the previous preview rectangle if there is one and then
    repaints the rectangles of the list, and paints the new preview rectangle that spans
    from the anchor of the gesture (the \<^verbatim>\<open>mousedown\<close> that found the state idle) to the
    current pointer position, which becomes the pending preview;
  \<^item> while not painting and with no preview pending, it changes nothing;
  \<^item> while not painting and with a preview pending (the one the last drag left), it
    clears that preview, repaints the rectangles of the list, and leaves no preview
    pending.
\<close>

theorem mousemove_preview:
  assumes "registerCanvasEvents p = Returned s0"
      and "s = run es s0"
  shows "\<exists>c. canvas (parameters s) = Some c \<and>
    (if painting s then
       (\<exists>pre a mid.
          es = pre @ MouseDown a # mid \<and> \<not> painting (run pre s0) \<and>
          \<not> list_ex is_MouseUp mid \<and>
          mousemove e s =
            Returned (s\<lparr>rectangle := Some (preview (viewport p) a e),
              parameters := (parameters s)\<lparr>canvas :=
                Some (c\<lparr>fillStyle := ''black'',
                  ops := ops c @
                    (case rectangle s of
                       None \<Rightarrow> []
                     | Some old \<Rightarrow> ClearRect (viewportRectangle old) #
                         repaint_ops (viewport p) (rectangles (parameters s))) @
                    [FillRect ''black''
                       (viewport_rectangle (viewport p)
                          (createRectangle_body (viewport p) a e))]\<rparr>)\<rparr>\<rparr>))
     else
       (case rectangle s of
          None \<Rightarrow> mousemove e s = Returned s
        | Some old \<Rightarrow>
            mousemove e s =
              Returned (s\<lparr>rectangle := None,
                parameters := (parameters s)\<lparr>canvas :=
                  Some (c\<lparr>fillStyle :=
                      (if present (rectangles (parameters s)) = [] then fillStyle c
                       else ''black''),
                    ops := ops c @ ClearRect (viewportRectangle old) #
                      repaint_ops (viewport p) (rectangles (parameters s))\<rparr>)\<rparr>\<rparr>)))"
proof -
  have l0: "listening s0" and idle: "\<not> painting s0"
    using registered_listening [OF assms(1)] by simp_all
  have l: "listening s" and v: "viewport (parameters s) = viewport p"
    using reachable_listening [OF assms(1), of es] assms(2) by simp_all
  then obtain c where c: "canvas (parameters s) = Some c"
    by (auto simp: listening_def)
  note mm = mousemove_listening [OF c l, of e, unfolded v]
  show ?thesis
  proof (cases "painting s")
    case True
    with painting_gesture [OF l0 idle, of es] assms(2) obtain pre a mid where
      d: "es = pre @ MouseDown a # mid" "\<not> painting (run pre s0)"
         "\<not> list_ex is_MouseUp mid" "createRectangle s = Some a" by blast
    from mm True d(4) v have "mousemove e s =
            Returned (s\<lparr>rectangle := Some (preview (viewport p) a e),
              parameters := (parameters s)\<lparr>canvas :=
                Some (c\<lparr>fillStyle := ''black'',
                  ops := ops c @
                    (case rectangle s of
                       None \<Rightarrow> []
                     | Some old \<Rightarrow> ClearRect (viewportRectangle old) #
                         repaint_ops (viewport p) (rectangles (parameters s))) @
                    [FillRect ''black''
                       (viewport_rectangle (viewport p)
                          (createRectangle_body (viewport p) a e))]\<rparr>)\<rparr>\<rparr>)"
      by (simp add: preview_def)
    with d(1-3) c True show ?thesis by auto
  next
    case False
    with mm v c show ?thesis by (simp split: option.splits)
  qed
qed

theorem mousemove_preview_witness:
  "registerCanvasEvents
     \<lparr>viewport = \<lparr>viewBox = (0, 0, 100, 100), scale = 1, rotation = 0, shiftX = 0,
                  shiftY = 0, dontFlip = True\<rparr>,
      canvas = Some createElement_canvas, rectangles = []\<rparr> =
   Returned
     \<lparr>parameters =
        \<lparr>viewport = \<lparr>viewBox = (0, 0, 100, 100), scale = 1, rotation = 0, shiftX = 0,
                     shiftY = 0, dontFlip = True\<rparr>,
         canvas = Some (createElement_canvas\<lparr>listeners := [''mousedown'', ''mouseup'', ''mousemove'']\<rparr>),
         rectangles = []\<rparr>,
      painting = False, createRectangle = None, rectangle = None\<rparr> \<and>
   map_option ops (canvas (parameters (state_of (mousemove \<lparr>offsetX = 60, offsetY = 70\<rparr>
     (run [MouseDown \<lparr>offsetX = 10, offsetY = 10\<rparr>, MouseMove \<lparr>offsetX = 50, offsetY = 40\<rparr>]
        \<lparr>parameters =
           \<lparr>viewport = \<lparr>viewBox = (0, 0, 100, 100), scale = 1, rotation = 0, shiftX = 0,
                        shiftY = 0, dontFlip = True\<rparr>,
            canvas = Some (createElement_canvas\<lparr>listeners := [''mousedown'', ''mouseup'', ''mousemove'']\<rparr>),
            rectangles = []\<rparr>,
         painting = False, createRectangle = None, rectangle = None\<rparr>))))) =
     Some [FillRect ''black'' (10, 10, 40, 30), ClearRect (10, 10, 40, 30),
           FillRect ''black'' (10, 10, 50, 60)]"
proof -
  let ?p = "\<lparr>viewport = \<lparr>viewBox = (0, 0, 100, 100), scale = 1, rotation = 0, shiftX = 0,
                  shiftY = 0, dontFlip = True\<rparr>,
      canvas = Some createElement_canvas, rectangles = []\<rparr>"
  let ?s0 = "\<lparr>parameters =
        \<lparr>viewport = \<lparr>viewBox = (0, 0, 100, 100), scale = 1, rotation = 0, shiftX = 0,
                     shiftY = 0, dontFlip = True\<rparr>,
         canvas = Some (createElement_canvas\<lparr>listeners := [''mousedown'', ''mouseup'', ''mousemove'']\<rparr>),
         rectangles = []\<rparr>,
      painting = False, createRectangle = None, rectangle = None\<rparr>"
  let ?v = "\<lparr>viewBox = (0, 0, 100, 100), scale = 1, rotation = 0, shiftX = 0,
             shiftY = 0, dontFlip = True\<rparr>"
  let ?x = "\<lparr>offsetX = 10, offsetY = 10\<rparr>"
  let ?y = "\<lparr>offsetX = 50, offsetY = 40\<rparr>"
  let ?e = "\<lparr>offsetX = 60, offsetY = 70\<rparr>"
  define s where "s = run [MouseDown ?x, MouseMove ?y] ?s0"
  have reg: "registerCanvasEvents ?p = Returned ?s0"
    by (simp add: registerCanvasEvents_def addEventListener_def createElement_canvas_def)
  have pt: "painting s"
    and old: "rectangle s = Some \<lparr>isRenderable = True, viewportRectangle = (10, 10, 40, 30)\<rparr>"
    and rs: "rectangles (parameters s) = []"
    and cv: "map_option ops (canvas (parameters s)) = Some [FillRect ''black'' (10, 10, 40, 30)]"
    unfolding s_def by (simp_all add: eval_defs)
  from mousemove_preview [OF reg s_def, of ?e] pt obtain c pre a mid where
    c: "canvas (parameters s) = Some c"
    and d: "[MouseDown ?x, MouseMove ?y] = pre @ MouseDown a # mid"
    and m: "mousemove ?e s =
            Returned (s\<lparr>rectangle := Some (preview (viewport ?p) a ?e),
              parameters := (parameters s)\<lparr>canvas :=
                Some (c\<lparr>fillStyle := ''black'',
                  ops := ops c @
                    (case rectangle s of
                       None \<Rightarrow> []
                     | Some old \<Rightarrow> ClearRect (viewportRectangle old) #
                         repaint_ops (viewport ?p) (rectangles (parameters s))) @
                    [FillRect ''black''
                       (viewport_rectangle (viewport ?p)
                          (createRectangle_body (viewport ?p) a ?e))]\<rparr>)\<rparr>\<rparr>)"
    by auto
  have a: "a = ?x" using anchor_of_down_move [OF d] .
  have body: "viewport_rectangle ?v (createRectangle_body ?v ?x ?e) = (10, 10, 50, 60)"
    by (simp add: eval_defs)
  have "map_option ops (canvas (parameters (state_of (mousemove ?e s)))) =
     Some [FillRect ''black'' (10, 10, 40, 30), ClearRect (10, 10, 40, 30),
           FillRect ''black'' (10, 10, 50, 60)]"
    using cv by (simp add: m a c old rs body repaint_ops_def)
  then show ?thesis
    using reg unfolding s_def by (intro conjI) simp_all
qed

text \<open>
  The claim as first stated fails after a drag: \<^verbatim>\<open>mouseup\<close> leaves the preview of the
  last \<^verbatim>\<open>mousemove\<close> pending, so the next \<^verbatim>\<open>mousemove\<close>, which finds the state not
  painting, clears it and repaints the list. After \<^verbatim>\<open>mousedown\<close> at (10, 10),
  \<^verbatim>\<open>mousemove\<close> to (50, 40) and \<^verbatim>\<open>mouseup\<close> at (30, 30), a \<^verbatim>\<open>mousemove\<close> to (60, 60)
  adds a \<^verbatim>\<open>clearRect\<close> and a \<^verbatim>\<open>fillRect\<close> to the canvas.
\<close>

theorem mousemove_idle_counterexample:
  "painting
     (run [MouseDown \<lparr>offsetX = 10, offsetY = 10\<rparr>, MouseMove \<lparr>offsetX = 50, offsetY = 40\<rparr>,
           MouseUp \<lparr>offsetX = 30, offsetY = 30\<rparr>]
        (state_of (AnonymizationLayer_render
           \<lparr>viewport = \<lparr>viewBox = (0, 0, 100, 100), scale = 1, rotation = 0, shiftX = 0,
                        shiftY = 0, dontFlip = True\<rparr>,
            canvas = Some createElement_canvas, rectangles = []\<rparr>))) = False \<and>
   map_option ops (canvas (parameters
     (run [MouseDown \<lparr>offsetX = 10, offsetY = 10\<rparr>, MouseMove \<lparr>offsetX = 50, offsetY = 40\<rparr>,
           MouseUp \<lparr>offsetX = 30, offsetY = 30\<rparr>]
        (state_of (AnonymizationLayer_render
           \<lparr>viewport = \<lparr>viewBox = (0, 0, 100, 100), scale = 1, rotation = 0, shiftX = 0,
                        shiftY = 0, dontFlip = True\<rparr>,
            canvas = Some createElement_canvas, rectangles = []\<rparr>))))) =
     Some [FillRect ''black'' (10, 10, 40, 30), FillRect ''black'' (10, 10, 20, 20)] \<and>
   map_option ops (canvas (parameters (state_of (mousemove \<lparr>offsetX = 60, offsetY = 60\<rparr>
     (run [MouseDown \<lparr>offsetX = 10, offsetY = 10\<rparr>, MouseMove \<lparr>offsetX = 50, offsetY = 40\<rparr>,
           MouseUp \<lparr>offsetX = 30, offsetY = 30\<rparr>]
        (state_of (AnonymizationLayer_render
           \<lparr>viewport = \<lparr>viewBox = (0, 0, 100, 100), scale = 1, rotation = 0, shiftX = 0,
                        shiftY = 0, dontFlip = True\<rparr>,
            canvas = Some createElement_canvas, rectangles = []\<rparr>))))))) =
     Some [FillRect ''black'' (10, 10, 40, 30), FillRect ''black'' (10, 10, 20, 20),
           ClearRect (10, 10, 40, 30), FillRect ''black'' (10, 10, 20, 20)]"
  by (simp add: eval_defs)

section \<open>The builder: cancel, hide and the localization request\<close>

lemma render_cancelled: "cancelled b \<Longrightarrow> AnonymizationLayerBuilder_render v b = Returned b"
  by (simp add: AnonymizationLayerBuilder_render_def)

lemma builder_step_cancelled:
  "cancelled b \<Longrightarrow> cancelled (state_of (builder_step c b))"
  by (cases c) (simp_all add: render_cancelled cancel_def hide_def split: option.splits)

lemma builder_run_cancelled: "cancelled b \<Longrightarrow> cancelled (builder_run cs b)"
  by (induction cs arbitrary: b) (simp_all add: builder_step_cancelled)

lemma builder_run_append: "builder_run (xs @ ys) b = builder_run ys (builder_run xs b)"
  by (induction xs arbitrary: b) simp_all

text \<open>
  C4. \<^verbatim>\<open>cancel\<close> changes the cancelled flag only. When the fetch of a \<^verbatim>\<open>render\<close> call
  resolves on a builder that was cancelled before, the callback returns normally and
  leaves the builder as it was: no canvas is created, none is resized or drawn on, and
  the layer is not called. This holds whatever was called on the builder between the
  \<^verbatim>\<open>cancel\<close> and the resolution.
\<close>

theorem cancelled_render_dropped:
  "cancel b = b\<lparr>cancelled := True\<rparr> \<and>
   AnonymizationLayerBuilder_render v (cancel b) = Returned (cancel b) \<and>
   builder_run (cs @ [RenderResolved v]) (cancel b) = builder_run cs (cancel b)"
proof -
  have "cancelled (cancel b)" by (simp add: cancel_def)
  then have "cancelled (builder_run cs (cancel b))" by (rule builder_run_cancelled)
  then show ?thesis
    by (simp add: cancel_def builder_run_append render_cancelled)
qed

text \<open>
  C9. On a builder without a canvas, \<^verbatim>\<open>hide\<close> returns normally and changes nothing;
  on a builder with a canvas, it returns normally and sets the attribute \<^verbatim>\<open>hidden\<close>
  of the canvas to \<^verbatim>\<open>'true'\<close>, changing nothing else.
\<close>

theorem hide_marks_canvas_hidden:
  "(case this_canvas b of
      None \<Rightarrow> hide b = Returned b
    | Some c \<Rightarrow>
        hide b = Returned (b\<lparr>this_canvas :=
          Some (c\<lparr>attributes := (attributes c)(''hidden'' \<mapsto> ''true'')\<rparr>)\<rparr>))"
  by (simp add: hide_def setAttribute_def split: option.splits)

lemma update_keeps_canvas:
  "canvas p \<noteq> None \<Longrightarrow> canvas (state_of (AnonymizationLayer_update p)) \<noteq> None"
  by (auto simp: update_outcome split: option.splits)

lemma render_step_translate:
  "translate_requests (l10n (state_of (AnonymizationLayerBuilder_render v b))) =
     translate_requests (l10n b) + (if \<not> cancelled b \<and> this_canvas b = None then 1 else 0)"
proof (cases "cancelled b")
  case True
  then show ?thesis by (simp add: render_cancelled)
next
  case False
  show ?thesis
  proof (cases "this_canvas b")
    case None
    with False show ?thesis
      by (simp add: AnonymizationLayerBuilder_render_def updateCanvas_def render_canvas
          sync_def translate_def Let_def)
  next
    case (Some c)
    with False show ?thesis
      by (cases "AnonymizationLayer_update
            \<lparr>viewport = clone True v,
             canvas = Some ((set_height (viewport_height v) (set_width (viewport_width v) c))
                   \<lparr>style_width := div_style_width (pageDiv b),
                    style_height := div_style_height (pageDiv b)\<rparr>),
             rectangles = this_rectangles b\<rparr>")
        (simp_all add: AnonymizationLayerBuilder_render_def updateCanvas_def sync_def)
  qed
qed

lemma render_step_canvas:
  "(if cancelled b then this_canvas (state_of (AnonymizationLayerBuilder_render v b)) = this_canvas b
    else this_canvas (state_of (AnonymizationLayerBuilder_render v b)) \<noteq> None)"
proof (cases "cancelled b")
  case True
  then show ?thesis by (simp add: render_cancelled)
next
  case False
  show ?thesis
  proof (cases "this_canvas b")
    case None
    with False show ?thesis
      by (simp add: AnonymizationLayerBuilder_render_def updateCanvas_def render_canvas
          sync_def translate_def Let_def)
  next
    case (Some c)
    let ?p = "\<lparr>viewport = clone True v,
             canvas = Some ((set_height (viewport_height v) (set_width (viewport_width v) c))
                   \<lparr>style_width := div_style_width (pageDiv b),
                    style_height := div_style_height (pageDiv b)\<rparr>),
             rectangles = this_rectangles b\<rparr>"
    have "canvas (state_of (AnonymizationLayer_update ?p)) \<noteq> None"
      by (rule update_keeps_canvas) simp
    with False Some show ?thesis
      by (cases "AnonymizationLayer_update ?p")
         (simp_all add: AnonymizationLayerBuilder_render_def updateCanvas_def sync_def)
  qed
qed

lemma builder_step_count:
  assumes "translate_requests (l10n b) = n + (if this_canvas b = None then 0 else 1)"
  shows "translate_requests (l10n (state_of (builder_step c b))) =
           n + (if this_canvas (state_of (builder_step c b)) = None then 0 else 1)"
proof (cases c)
  case (RenderResolved v)
  with assms render_step_translate [of v b] render_step_canvas [of b v] show ?thesis
    by (auto split: if_splits)
next
  case Cancel
  with assms show ?thesis by (simp add: cancel_def)
next
  case Hide
  with assms show ?thesis by (simp add: hide_def split: option.splits)
qed

lemma builder_run_count:
  assumes "translate_requests (l10n b) = n + (if this_canvas b = None then 0 else 1)"
  shows "translate_requests (l10n (builder_run cs b)) =
           n + (if this_canvas (builder_run cs b) = None then 0 else 1)"
  using assms
proof (induction cs arbitrary: b)
  case Nil
  then show ?case by simp
next
  case (Cons c cs)
  from Cons.IH [OF builder_step_count [OF Cons.prems, of c]] show ?case by simp
qed

text \<open>
  C10. A render callback requests \<^verbatim>\<open>l10n.translate\<close> once if the builder is not
  cancelled and has no canvas, and not at all otherwise; after a callback that was not
  cancelled the builder has a canvas, so every later one takes the update path. Hence,
  over every sequence of calls on a newly constructed builder, the number of requests is
  zero as long as no canvas exists and one ever after: the single request is made by the
  first render that was not cancelled, the one that creates the canvas.
\<close>

theorem translate_once_at_canvas_creation:
  "translate_requests (l10n (state_of (AnonymizationLayerBuilder_render v b))) =
     translate_requests (l10n b) + (if \<not> cancelled b \<and> this_canvas b = None then 1 else 0) \<and>
   (if cancelled b
    then this_canvas (state_of (AnonymizationLayerBuilder_render v b)) = this_canvas b
    else this_canvas (state_of (AnonymizationLayerBuilder_render v b)) \<noteq> None) \<and>
   translate_requests (l10n (builder_run cs (AnonymizationLayerBuilder pd pg rs l))) =
     translate_requests (l10n (AnonymizationLayerBuilder pd pg rs l)) +
       (if this_canvas (builder_run cs (AnonymizationLayerBuilder pd pg rs l)) = None then 0 else 1)"
proof -
  have "translate_requests (l10n (AnonymizationLayerBuilder pd pg rs l)) =
          translate_requests (l10n (AnonymizationLayerBuilder pd pg rs l)) +
            (if this_canvas (AnonymizationLayerBuilder pd pg rs l) = None then 0 else 1)"
    by (simp add: AnonymizationLayerBuilder_def)
  from builder_run_count [OF this, of cs] render_step_translate [of v b] render_step_canvas [of b v]
  show ?thesis by simp
qed

text \<open>
  Two runs of the builder. A first render of a 100 by 100 page with two rectangles and a
  \<^verbatim>\<open>null\<close> entry sizes the canvas, paints the two rectangles and installs the
  listeners. A render that follows \<^verbatim>\<open>hide\<close> takes the update path: it resizes the
  canvas, which resets its bitmap, and \<^verbatim>\<open>update\<close> then throws at the rectangle, so the
  overlay is left empty and hidden.
\<close>

lemmas builder_defs =
  AnonymizationLayerBuilder_def AnonymizationLayerBuilder_render_def updateCanvas_def
  hide_def cancel_def sync_def translate_def appendChild_def NullL10n_def clone_def
  set_width_def set_height_def setAttribute_def removeAttribute_def viewport_width_def
  AnonymizationLayer_update_def

lemma first_render_example:
  "map_option (\<lambda>c. (ops c, canvas_width c, canvas_height c, listeners c))
     (this_canvas (builder_run
        [RenderResolved \<lparr>viewBox = (0, 0, 100, 100), scale = 1, rotation = 0, shiftX = 0,
                          shiftY = 0, dontFlip = False\<rparr>]
        (AnonymizationLayerBuilder
           \<lparr>div_style_width = ''100px'', div_style_height = ''100px'', children = []\<rparr> 1
           [Some \<lparr>x0 = 0, y0 = 0, x1 = 10, y1 = 10\<rparr>, None,
            Some \<lparr>x0 = 20, y0 = 30, x1 = 50, y1 = 80\<rparr>] None)))
   = Some ([FillRect ''black'' (0, 100, 10, - 10), FillRect ''black'' (20, 70, 30, - 50)],
           100, 100, [''mousedown'', ''mouseup'', ''mousemove''])"
  by (simp add: builder_defs eval_defs)

lemma hidden_overlay_stays_hidden:
  "map_option (\<lambda>c. (ops c, attributes c ''hidden''))
     (this_canvas (builder_run
        [RenderResolved \<lparr>viewBox = (0, 0, 100, 100), scale = 1, rotation = 0, shiftX = 0,
                          shiftY = 0, dontFlip = False\<rparr>,
         Hide,
         RenderResolved \<lparr>viewBox = (0, 0, 100, 100), scale = 2, rotation = 0, shiftX = 0,
                          shiftY = 0, dontFlip = False\<rparr>]
        (AnonymizationLayerBuilder
           \<lparr>div_style_width = ''100px'', div_style_height = ''100px'', children = []\<rparr> 1
           [Some \<lparr>x0 = 0, y0 = 0, x1 = 10, y1 = 10\<rparr>] None)))
   = Some ([], Some ''true'')"
  by (simp add: builder_defs eval_defs)

section \<open>The factory of builders\<close>

text \<open>
  C7. For all arguments, \<^verbatim>\<open>createAnonymizationBuilder\<close> throws a \<^verbatim>\<open>ReferenceError\<close> and
  returns no builder: the shorthand property \<^verbatim>\<open>imageResourcesPath\<close> names a variable
  that neither the method nor the module binds, so the reference fails whenever the host
  defines no global of that name.
\<close>

theorem createAnonymizationBuilder_throws:
  assumes "''imageResourcesPath'' \<notin> set globals"
  shows "createAnonymizationBuilder globals pd pg rs l = Inl ReferenceError"
proof -
  have "''imageResourcesPath'' \<notin> set (method_scope @ module_scope @ globals)"
    using assms by (simp add: method_scope_def module_scope_def)
  then have "''imageResourcesPath'' \<in> set (unresolved globals)"
    by (simp add: unresolved_def shorthand_properties_def)
  then show ?thesis
    by (cases "unresolved globals") (simp_all add: createAnonymizationBuilder_def)
qed

theorem createAnonymizationBuilder_throws_witness:
  "''imageResourcesPath'' \<notin> set [''window'', ''document''] \<and>
   createAnonymizationBuilder [''window'', ''document'']
     \<lparr>div_style_width = ''612px'', div_style_height = ''792px'', children = []\<rparr> 1 [] None
   = Inl ReferenceError"
proof -
  have h: "''imageResourcesPath'' \<notin> set [''window'', ''document'']" by simp
  from createAnonymizationBuilder_throws [OF h] h show ?thesis by blast
qed

end
